theory Spec2Isabelle
  imports Main
begin

section \<open>Go strings and the \<^verbatim>\<open>strings\<close> functions the plugin calls\<close>

text \<open>
  A Go \<^verbatim>\<open>string\<close> is a sequence of bytes; it is modelled as a \<^typ>\<open>string\<close>, whose
  characters are bytes. The functions below are the ones of Go's standard library that
  the plugin and its client call, written on bytes.
\<close>

definition HasPrefix :: "string \<Rightarrow> string \<Rightarrow> bool" where
  "HasPrefix s p = (length p \<le> length s \<and> take (length p) s = p)"

definition HasSuffix :: "string \<Rightarrow> string \<Rightarrow> bool" where
  "HasSuffix s p = (length p \<le> length s \<and> drop (length s - length p) s = p)"

definition TrimPrefix :: "string \<Rightarrow> string \<Rightarrow> string" where
  "TrimPrefix s p = (if HasPrefix s p then drop (length p) s else s)"

definition TrimSuffix :: "string \<Rightarrow> string \<Rightarrow> string" where
  "TrimSuffix s p = (if HasSuffix s p then take (length s - length p) s else s)"

text \<open>
  \<^verbatim>\<open>unicode.IsSpace\<close>: the white-space runes, each as its UTF-8 encoding. The first
  six are the ASCII ones of \<^verbatim>\<open>asciiSpace\<close> (tab, line feed, vertical tab, form feed,
  carriage return, space); then U+0085, U+00A0, U+1680, U+2000 to U+200A, U+2028, U+2029,
  U+202F, U+205F and U+3000.
\<close>

definition spaceRunes :: "string list" where
  "spaceRunes =
    [[CHR 0x09], [CHR 0x0A], [CHR 0x0B], [CHR 0x0C], [CHR 0x0D], [CHR 0x20],
     [CHR 0xC2, CHR 0x85], [CHR 0xC2, CHR 0xA0],
     [CHR 0xE1, CHR 0x9A, CHR 0x80],
     [CHR 0xE2, CHR 0x80, CHR 0x80], [CHR 0xE2, CHR 0x80, CHR 0x81],
     [CHR 0xE2, CHR 0x80, CHR 0x82], [CHR 0xE2, CHR 0x80, CHR 0x83],
     [CHR 0xE2, CHR 0x80, CHR 0x84], [CHR 0xE2, CHR 0x80, CHR 0x85],
     [CHR 0xE2, CHR 0x80, CHR 0x86], [CHR 0xE2, CHR 0x80, CHR 0x87],
     [CHR 0xE2, CHR 0x80, CHR 0x88], [CHR 0xE2, CHR 0x80, CHR 0x89],
     [CHR 0xE2, CHR 0x80, CHR 0x8A],
     [CHR 0xE2, CHR 0x80, CHR 0xA8], [CHR 0xE2, CHR 0x80, CHR 0xA9],
     [CHR 0xE2, CHR 0x80, CHR 0xAF],
     [CHR 0xE2, CHR 0x81, CHR 0x9F],
     [CHR 0xE3, CHR 0x80, CHR 0x80]]"

text \<open>
  The width in bytes of the white-space rune a string starts (ends) with, 0 when it
  starts (ends) with none. No encoding in \<^const>\<open>spaceRunes\<close> is a prefix or a suffix of
  another, so at most one matches.
\<close>

definition leadingSpace :: "string \<Rightarrow> nat" where
  "leadingSpace s = (case find (HasPrefix s) spaceRunes of None \<Rightarrow> 0 | Some w \<Rightarrow> length w)"

definition trailingSpace :: "string \<Rightarrow> nat" where
  "trailingSpace s = (case find (HasSuffix s) spaceRunes of None \<Rightarrow> 0 | Some w \<Rightarrow> length w)"

lemma leadingSpace_Nil: "leadingSpace [] = 0"
  by (simp add: leadingSpace_def spaceRunes_def HasPrefix_def)

lemma trailingSpace_Nil: "trailingSpace [] = 0"
  by (simp add: trailingSpace_def spaceRunes_def HasSuffix_def)

text \<open>
  \<^verbatim>\<open>strings.TrimLeftFunc(s, unicode.IsSpace)\<close> and \<^verbatim>\<open>strings.TrimRightFunc(s, unicode.IsSpace)\<close>:
  white-space runes are dropped from one end until the string is empty or a rune at
  that end is not white space.
\<close>

function TrimLeftSpace :: "string \<Rightarrow> string" where
  "TrimLeftSpace s =
     (if leadingSpace s = 0 then s else TrimLeftSpace (drop (leadingSpace s) s))"
  by pat_completeness auto
termination
proof (relation "measure length")
  show "wf (measure length)" by simp
next
  fix s :: string
  assume "leadingSpace s \<noteq> 0"
  moreover from this have "s \<noteq> []" using leadingSpace_Nil by auto
  ultimately show "(drop (leadingSpace s) s, s) \<in> measure length" by simp
qed

function TrimRightSpace :: "string \<Rightarrow> string" where
  "TrimRightSpace s =
     (if trailingSpace s = 0 then s else TrimRightSpace (take (length s - trailingSpace s) s))"
  by pat_completeness auto
termination
proof (relation "measure length")
  show "wf (measure length)" by simp
next
  fix s :: string
  assume "trailingSpace s \<noteq> 0"
  moreover from this have "s \<noteq> []" using trailingSpace_Nil by auto
  ultimately show "(take (length s - trailingSpace s) s, s) \<in> measure length" by simp
qed

declare TrimLeftSpace.simps [simp del] TrimRightSpace.simps [simp del]

text \<open>\<^verbatim>\<open>strings.TrimSpace\<close>: all leading and trailing white space removed.\<close>

definition TrimSpace :: "string \<Rightarrow> string" where
  "TrimSpace s = TrimRightSpace (TrimLeftSpace s)"

text \<open>
  \<^verbatim>\<open>strings.Index\<close> for a one-byte separator: the index of its first occurrence, \<open>None\<close>
  where Go returns -1.
\<close>

fun Index :: "string \<Rightarrow> char \<Rightarrow> nat option" where
  "Index [] sep = None"
| "Index (c # s) sep = (if c = sep then Some 0 else map_option Suc (Index s sep))"

text \<open>
  \<^verbatim>\<open>strings.SplitN(s, sep, n)\<close> for a one-byte separator and \<open>n \<ge> 0\<close>: no pieces for
  \<open>n = 0\<close>; otherwise the string is cut at the first \<open>n - 1\<close> separators and the last
  piece is the unsplit remainder. (Go first lowers \<open>n\<close> to the length of the string plus
  one; a string has no more pieces than that, so the result is the same.)
\<close>

fun SplitN :: "string \<Rightarrow> char \<Rightarrow> nat \<Rightarrow> string list" where
  "SplitN s sep 0 = []"
| "SplitN s sep (Suc 0) = [s]"
| "SplitN s sep (Suc (Suc n)) =
     (case Index s sep of
        None \<Rightarrow> [s]
      | Some m \<Rightarrow> take m s # SplitN (drop (Suc m) s) sep (Suc n))"

text \<open>
  \<^verbatim>\<open>strings.EqualFold\<close> on ASCII: two bytes match when they are equal, or when the
  smaller is an upper-case letter \<open>A..Z\<close> and the larger is that letter in lower case.
  Go folds runes outside ASCII with the Unicode simple-folding tables; those tables are
  not modelled, and a byte from \<open>0x80\<close> on matches only itself here.
\<close>

definition foldEq :: "char \<Rightarrow> char \<Rightarrow> bool" where
  "foldEq sr tr =
     (let a = min (of_char sr) (of_char tr) :: nat;
          b = max (of_char sr) (of_char tr) :: nat
      in a = b \<or> (65 \<le> a \<and> a \<le> 90 \<and> b = a + 32))"

fun EqualFold :: "string \<Rightarrow> string \<Rightarrow> bool" where
  "EqualFold [] [] = True"
| "EqualFold (sr # s) (tr # t) = (foldEq sr tr \<and> EqualFold s t)"
| "EqualFold _ _ = False"

text \<open>\<^verbatim>\<open>strings.Replace(s, old, new, -1)\<close> for a one-byte \<open>old\<close>: every occurrence replaced.\<close>

definition Replace :: "string \<Rightarrow> char \<Rightarrow> string \<Rightarrow> string" where
  "Replace s old new = concat (map (\<lambda>c. if c = old then new else [c]) s)"

section \<open>Errors\<close>

text \<open>
  One constructor for each error the package builds, carrying the values its message is
  formatted from, in the order of the format string. The last two stand for the errors
  of \<^verbatim>\<open>net/http\<close> and \<^verbatim>\<open>encoding/json\<close>, which the package passes on unchanged.
\<close>

datatype error =
    NilRequest  \<comment> \<open>\<^verbatim>\<open>nil request\<close>\<close>
  | EmptySecretName  \<comment> \<open>\<^verbatim>\<open>secret name must not be empty\<close>\<close>
  | PathFormat  \<comment> \<open>\<^verbatim>\<open>secret path must be formatted as vault/item[/field]\<close>\<close>
  | PathEmptyName  \<comment> \<open>\<^verbatim>\<open>vault and item names cannot be empty\<close>\<close>
  | NoNotes string  \<comment> \<open>\<^verbatim>\<open>item %q does not contain notes\<close>\<close>
  | MultiplePasswordFields string
      \<comment> \<open>\<^verbatim>\<open>item %q defines multiple password fields; specify the desired field label\<close>\<close>
  | FieldNotFound string string  \<comment> \<open>\<^verbatim>\<open>field %q not found in item %q\<close>\<close>
  | FieldAmbiguous string string
      \<comment> \<open>\<^verbatim>\<open>field label %q is ambiguous in item %q; use a section-qualified label\<close>\<close>
  | SectionNotFound string string  \<comment> \<open>\<^verbatim>\<open>section %q not found in item %q\<close>\<close>
  | FieldNotFoundInSection string string  \<comment> \<open>\<^verbatim>\<open>field %q not found in section %q\<close>\<close>
  | FieldDuplicated string string  \<comment> \<open>\<^verbatim>\<open>field %q is duplicated in section %q\<close>\<close>
  | VaultNotFound string  \<comment> \<open>\<^verbatim>\<open>vault %q not found\<close>\<close>
  | MultipleVaults string  \<comment> \<open>\<^verbatim>\<open>multiple vaults match name %q\<close>\<close>
  | ItemNotFound string string  \<comment> \<open>\<^verbatim>\<open>item %q not found in vault %q\<close>\<close>
  | MultipleItems string string  \<comment> \<open>\<^verbatim>\<open>multiple items named %q found in vault %q\<close>\<close>
  | ApiError int string  \<comment> \<open>\<^verbatim>\<open>apiError{StatusCode, Message}\<close>\<close>
  | LookupVault string error  \<comment> \<open>\<^verbatim>\<open>lookup vault %q: %w\<close>\<close>
  | LookupItem string error  \<comment> \<open>\<^verbatim>\<open>lookup item %q: %w\<close>\<close>
  | LoadItem string error  \<comment> \<open>\<^verbatim>\<open>load item %q: %w\<close>\<close>
  | TransportError string
  | JsonError string

section \<open>The path parser\<close>

text \<open>\<^verbatim>\<open>parseSecretPath\<close>: the vault name, the item title and the field selector of a path.\<close>

definition parseSecretPath :: "string \<Rightarrow> error + string \<times> string \<times> string" where
  "parseSecretPath path =
     (let parts = SplitN path CHR ''/'' 3 in
      if length parts < 2 then Inl PathFormat
      else
        let vault = TrimSpace (parts ! 0);
            item = TrimSpace (parts ! 1)
        in if vault = [] \<or> item = [] then Inl PathEmptyName
           else Inr (vault, item, if length parts = 3 then TrimSpace (parts ! 2) else []))"

text \<open>
  The words of the specification for the pieces of a path: the text before the first
  \<open>/\<close>, and the whole remainder after the first \<open>/\<close>. The vault component of a path
  \<open>p\<close> is \<open>firstSegment p\<close>, its item component is \<open>firstSegment (afterSlash p)\<close>, and
  the remainder after the second \<open>/\<close> is \<open>afterSlash (afterSlash p)\<close>.
\<close>

definition firstSegment :: "string \<Rightarrow> string" where
  "firstSegment p = takeWhile (\<lambda>c. c \<noteq> CHR ''/'') p"

definition afterSlash :: "string \<Rightarrow> string" where
  "afterSlash p = tl (dropWhile (\<lambda>c. c \<noteq> CHR ''/'') p)"

section \<open>The item data model\<close>

text \<open>
  The structs of \<^verbatim>\<open>types.go\<close>. Field names carry the struct as a prefix, since several
  structs have an \<^verbatim>\<open>ID\<close>, a \<^verbatim>\<open>Label\<close> or a \<^verbatim>\<open>Title\<close>. The pointer
  \<^verbatim>\<open>Section *itemFieldSection\<close> of a field is an option: \<open>None\<close> is \<^verbatim>\<open>nil\<close>.
\<close>

record itemFieldSection =
  ref_ID :: string

record itemField =
  field_ID :: string
  field_Label :: string
  field_Value :: string
  field_Purpose :: string
  field_Type :: string
  field_Section :: "itemFieldSection option"

record itemSection =
  section_ID :: string
  section_Label :: string

record fullItem =
  item_ID :: string
  item_Title :: string
  item_Fields :: "itemField list"
  item_Sections :: "itemSection list"
  item_NotesPlain :: string

record vaultSummary =
  vault_ID :: string
  vault_Name :: string

record itemSummary =
  summary_ID :: string
  summary_Title :: string

section \<open>Field selection\<close>

text \<open>
  Each \<^verbatim>\<open>for i := range item.Fields\<close> loop is a recursion over the fields with the slice
  \<^verbatim>\<open>matches\<close> as accumulator; a \<^verbatim>\<open>continue\<close> is a recursive call with the accumulator
  unchanged, and \<^verbatim>\<open>append\<close> adds at the end.
\<close>

fun labelMatches :: "string \<Rightarrow> itemField list \<Rightarrow> itemField list \<Rightarrow> itemField list" where
  "labelMatches fieldLabel [] matches = matches"
| "labelMatches fieldLabel (field # rest) matches =
     (if \<not> EqualFold (field_Label field) fieldLabel then labelMatches fieldLabel rest matches
      else if field_Value field = [] then labelMatches fieldLabel rest matches
      else labelMatches fieldLabel rest (matches @ [field]))"

definition findFieldByLabel :: "fullItem \<Rightarrow> string \<Rightarrow> error + string" where
  "findFieldByLabel item label =
     (let fieldLabel = TrimSpace label;
          matches = labelMatches fieldLabel (item_Fields item) []
      in if length matches = 0 then Inl (FieldNotFound fieldLabel (item_Title item))
         else if length matches = 1 then Inr (field_Value (matches ! 0))
         else Inl (FieldAmbiguous fieldLabel (item_Title item)))"

fun passwordMatches :: "itemField list \<Rightarrow> string list \<Rightarrow> string list" where
  "passwordMatches [] matches = matches"
| "passwordMatches (field # rest) matches =
     (if \<not> EqualFold (field_Purpose field) ''PASSWORD'' then passwordMatches rest matches
      else if field_Value field = [] then passwordMatches rest matches
      else passwordMatches rest (matches @ [field_Value field]))"

definition defaultPassword :: "fullItem \<Rightarrow> error + string" where
  "defaultPassword item =
     (let matches = passwordMatches (item_Fields item) []
      in if length matches = 1 then Inr (matches ! 0)
         else if length matches = 0 then findFieldByLabel item ''password''
         else Inl (MultiplePasswordFields (item_Title item)))"

text \<open>
  The map \<^verbatim>\<open>sectionIDs\<close> of \<^verbatim>\<open>findFieldInSection\<close> has keys only
  (\<^verbatim>\<open>map[string]struct{}\<close>): it is a set of section ids, filled by the first loop.
\<close>

fun sectionIDsOf :: "string \<Rightarrow> itemSection list \<Rightarrow> string set \<Rightarrow> string set" where
  "sectionIDsOf sectionLabel [] sectionIDs = sectionIDs"
| "sectionIDsOf sectionLabel (section # rest) sectionIDs =
     (if EqualFold (section_Label section) sectionLabel
      then sectionIDsOf sectionLabel rest (insert (section_ID section) sectionIDs)
      else sectionIDsOf sectionLabel rest sectionIDs)"

fun sectionMatches ::
  "string set \<Rightarrow> string \<Rightarrow> itemField list \<Rightarrow> itemField list \<Rightarrow> itemField list" where
  "sectionMatches sectionIDs fieldLabel [] matches = matches"
| "sectionMatches sectionIDs fieldLabel (field # rest) matches =
     (case field_Section field of
        None \<Rightarrow> sectionMatches sectionIDs fieldLabel rest matches
      | Some ref \<Rightarrow>
          if ref_ID ref \<notin> sectionIDs then sectionMatches sectionIDs fieldLabel rest matches
          else if \<not> EqualFold (field_Label field) fieldLabel
            then sectionMatches sectionIDs fieldLabel rest matches
          else if field_Value field = [] then sectionMatches sectionIDs fieldLabel rest matches
          else sectionMatches sectionIDs fieldLabel rest (matches @ [field]))"

definition findFieldInSection :: "fullItem \<Rightarrow> string \<Rightarrow> string \<Rightarrow> error + string" where
  "findFieldInSection item sectionLabel fieldLabel =
     (let sectionIDs = sectionIDsOf sectionLabel (item_Sections item) {}
      in if sectionIDs = {} then Inl (SectionNotFound sectionLabel (item_Title item))
         else
           let matches = sectionMatches sectionIDs fieldLabel (item_Fields item) []
           in if length matches = 0 then Inl (FieldNotFoundInSection fieldLabel sectionLabel)
              else if length matches = 1 then Inr (field_Value (matches ! 0))
              else Inl (FieldDuplicated fieldLabel sectionLabel))"

definition splitQualifiedLabel :: "string \<Rightarrow> string \<times> string" where
  "splitQualifiedLabel label =
     (let parts = SplitN label CHR ''/'' 2
      in if length parts = 1 then ([], TrimSpace (parts ! 0))
         else (TrimSpace (parts ! 0), TrimSpace (parts ! 1)))"

definition selectFieldValue :: "fullItem \<Rightarrow> string \<Rightarrow> error + string" where
  "selectFieldValue item selector =
     (if selector = [] then defaultPassword item
      else if EqualFold selector ''notes'' \<or> EqualFold selector ''notesPlain''
        then (if item_NotesPlain item = [] then Inl (NoNotes (item_Title item))
              else Inr (item_NotesPlain item))
      else
        let (sectionName, fieldLabel) = splitQualifiedLabel selector
        in if sectionName \<noteq> [] then findFieldInSection item sectionName fieldLabel
           else findFieldByLabel item fieldLabel)"

text \<open>
  The words of the specification for the candidates of each lookup. The password
  candidates are the fields whose purpose is case-insensitively equal to \<open>PASSWORD\<close> and
  whose value is not empty; the candidates of a label are the fields with that label
  (case-insensitively) and a non-empty value; the ids of a section label are the ids of
  all the sections with that label (case-insensitively); the candidates in a section are
  the fields that refer to one of these ids, have the label and a non-empty value.
\<close>

definition passwordCandidates :: "fullItem \<Rightarrow> itemField list" where
  "passwordCandidates item =
     filter (\<lambda>f. EqualFold (field_Purpose f) ''PASSWORD'' \<and> field_Value f \<noteq> [])
       (item_Fields item)"

definition labelCandidates :: "fullItem \<Rightarrow> string \<Rightarrow> itemField list" where
  "labelCandidates item label =
     filter (\<lambda>f. EqualFold (field_Label f) label \<and> field_Value f \<noteq> []) (item_Fields item)"

definition sectionIdSet :: "fullItem \<Rightarrow> string \<Rightarrow> string set" where
  "sectionIdSet item sectionPart =
     set (map section_ID
       (filter (\<lambda>s. EqualFold (section_Label s) sectionPart) (item_Sections item)))"

definition inSections :: "string set \<Rightarrow> itemField \<Rightarrow> bool" where
  "inSections ids f = (case field_Section f of None \<Rightarrow> False | Some r \<Rightarrow> ref_ID r \<in> ids)"

definition sectionCandidates :: "fullItem \<Rightarrow> string \<Rightarrow> string \<Rightarrow> itemField list" where
  "sectionCandidates item sectionPart label =
     filter (\<lambda>f. inSections (sectionIdSet item sectionPart) f \<and>
                 EqualFold (field_Label f) label \<and> field_Value f \<noteq> [])
       (item_Fields item)"

text \<open>
  Items for the examples. \<open>mkField\<close> and \<open>mkItem\<close> are struct literals that leave the
  other fields at their zero value. \<open>testItem\<close> is the item of \<^verbatim>\<open>TestSelectFieldValue\<close>.
\<close>

definition mkField ::
  "string \<Rightarrow> string \<Rightarrow> string \<Rightarrow> itemFieldSection option \<Rightarrow> itemField" where
  "mkField label val purpose sec =
     \<lparr>field_ID = [], field_Label = label, field_Value = val, field_Purpose = purpose,
      field_Type = [], field_Section = sec\<rparr>"

definition mkItem :: "string \<Rightarrow> itemField list \<Rightarrow> itemSection list \<Rightarrow> string \<Rightarrow> fullItem" where
  "mkItem title fs ss notes =
     \<lparr>item_ID = [], item_Title = title, item_Fields = fs, item_Sections = ss,
      item_NotesPlain = notes\<rparr>"

definition testItem :: fullItem where
  "testItem = mkItem ''Sample''
     [mkField ''Username'' ''octocat'' [] None,
      mkField ''Password'' ''hunter2'' ''PASSWORD'' None,
      mkField ''Token'' ''abc123'' [] (Some \<lparr>ref_ID = ''sec''\<rparr>)]
     [\<lparr>section_ID = ''sec'', section_Label = ''Service Keys''\<rparr>]
     ''secret note''"



definition twoSections :: fullItem where
  "twoSections = mkItem ''Twins''
     [mkField ''Token'' ''abc'' [] (Some \<lparr>ref_ID = ''s1''\<rparr>),
      mkField ''Token'' ''def'' [] (Some \<lparr>ref_ID = ''s2''\<rparr>),
      mkField ''Empty'' [] [] (Some \<lparr>ref_ID = ''s1''\<rparr>)]
     [\<lparr>section_ID = ''s1'', section_Label = ''Service Keys''\<rparr>,
      \<lparr>section_ID = ''s2'', section_Label = ''service keys''\<rparr>]
     []"

section \<open>The Connect client\<close>

text \<open>
  \<^verbatim>\<open>escapeFilterValue\<close> doubles each backslash, then puts a backslash before each double
  quote; \<^verbatim>\<open>buildEqualsFilter\<close> formats \<^verbatim>\<open>%s eq "%s"\<close>.
\<close>

definition escapeFilterValue :: "string \<Rightarrow> string" where
  "escapeFilterValue v =
     (let replaced = Replace v (CHR 0x5C) [CHR 0x5C, CHR 0x5C]
      in Replace replaced (CHR 0x22) [CHR 0x5C, CHR 0x22])"

definition buildEqualsFilter :: "string \<Rightarrow> string \<Rightarrow> string" where
  "buildEqualsFilter field v = field @ '' eq '' @ [CHR 0x22] @ escapeFilterValue v @ [CHR 0x22]"

text \<open>
  \<^verbatim>\<open>url.PathEscape\<close>: \<^verbatim>\<open>shouldEscape\<close> in the mode \<^verbatim>\<open>encodePathSegment\<close> keeps letters,
  digits, the marks \<^verbatim>\<open>-_.~\<close> and, of the reserved characters \<^verbatim>\<open>$&+,/:;=?@\<close>, all but
  \<^verbatim>\<open>/ ; , ?\<close>; every other byte is written as \<^verbatim>\<open>%\<close> and two upper-case hexadecimal
  digits. In this mode a space becomes \<^verbatim>\<open>%20\<close> and \<^verbatim>\<open>+\<close> is kept.
\<close>

definition upperhex :: string where
  "upperhex = ''0123456789ABCDEF''"

definition shouldEscape :: "char \<Rightarrow> bool" where
  "shouldEscape c =
     (let n = of_char c :: nat in
      if (97 \<le> n \<and> n \<le> 122) \<or> (65 \<le> n \<and> n \<le> 90) \<or> (48 \<le> n \<and> n \<le> 57) then False
      else if c \<in> set ''-_.~'' then False
      else if c \<in> set ''$&+,/:;=?@''
        then c = CHR ''/'' \<or> c = CHR '';'' \<or> c = CHR '','' \<or> c = CHR ''?''
      else True)"

definition escapeByte :: "char \<Rightarrow> string" where
  "escapeByte c =
     (if shouldEscape c
      then [CHR ''%'', upperhex ! (of_char c div 16), upperhex ! (of_char c mod 16)]
      else [c])"

definition PathEscape :: "string \<Rightarrow> string" where
  "PathEscape s = concat (map escapeByte s)"

definition escapePathSegment :: "string \<Rightarrow> string" where
  "escapePathSegment segment = Replace (PathEscape segment) CHR ''+'' ''%20''"

text \<open>
  \<^verbatim>\<open>url.PathUnescape\<close>, the inverse of \<^verbatim>\<open>url.PathEscape\<close> that the receiver of a URL
  applies to a path segment: \<^verbatim>\<open>%\<close> and two hexadecimal digits become the byte they
  spell, a \<^verbatim>\<open>%\<close> not followed by two hexadecimal digits is an error (here \<open>None\<close>), and
  every other byte, also \<^verbatim>\<open>+\<close>, is kept.
\<close>

definition unhex :: "char \<Rightarrow> nat option" where
  "unhex c =
     (let n = of_char c :: nat in
      if 48 \<le> n \<and> n \<le> 57 then Some (n - 48)
      else if 97 \<le> n \<and> n \<le> 102 then Some (n - 97 + 10)
      else if 65 \<le> n \<and> n \<le> 70 then Some (n - 65 + 10)
      else None)"

fun PathUnescape :: "string \<Rightarrow> string option" where
  "PathUnescape [] = Some []"
| "PathUnescape (c # s) =
     (if c = CHR ''%'' then
        (case s of
           h # l # r \<Rightarrow>
             (case (unhex h, unhex l) of
                (Some a, Some b) \<Rightarrow> map_option ((#) (char_of (a * 16 + b))) (PathUnescape r)
              | _ \<Rightarrow> None)
         | _ \<Rightarrow> None)
      else map_option ((#) c) (PathUnescape s))"

text \<open>
  The reader of a filter expression undoes \<^verbatim>\<open>escapeFilterValue\<close> by taking the byte
  after a backslash as it is.
\<close>

fun unescapeFilterValue :: "string \<Rightarrow> string" where
  "unescapeFilterValue [] = []"
| "unescapeFilterValue [c] = [c]"
| "unescapeFilterValue (c # d # s) =
     (if c = CHR 0x5C then d # unescapeFilterValue s else c # unescapeFilterValue (d # s))"

text \<open>What the two replacements of \<^verbatim>\<open>escapeFilterValue\<close> do to one byte.\<close>

definition escapeFilterByte :: "char \<Rightarrow> string" where
  "escapeFilterByte c =
     (if c = CHR 0x5C then [CHR 0x5C, CHR 0x5C]
      else if c = CHR 0x22 then [CHR 0x5C, CHR 0x22] else [c])"

text \<open>
  The HTTP exchange. A request is the URL (scheme, host and path of \<^verbatim>\<open>url.URL\<close>), the
  query values and the headers that \<^verbatim>\<open>get\<close> sets; a response is the status code, the
  status line and the body. \<^verbatim>\<open>c.httpClient.Do\<close> is a field of the client: a function of
  the state of the world outside (the store and the network), which returns either the
  text of a transport error or a response, and the new state. Building the request
  (\<^verbatim>\<open>http.NewRequestWithContext\<close>) and cancellation of the context are part of it: their
  errors are returned by \<^verbatim>\<open>get\<close> unchanged, like those of \<^verbatim>\<open>Do\<close>. The base URL of a
  client has no query and no fragment (\<^verbatim>\<open>newConnectClient\<close> clears both), so the query
  of a request is the one \<^verbatim>\<open>get\<close> is given. Serialising the URL (\<^verbatim>\<open>u.String()\<close>,
  \<^verbatim>\<open>query.Encode()\<close>) is left to the transport.
\<close>

record url =
  url_Scheme :: string
  url_Host :: string
  url_Path :: string

record httpRequest =
  req_Method :: string
  req_URL :: url
  req_Query :: "(string \<times> string list) list"
  req_Header :: "(string \<times> string) list"

record httpResponse =
  resp_StatusCode :: int
  resp_Status :: string
  resp_Body :: string

record 's connectClient =
  baseURL :: url
  httpClient :: "'s \<Rightarrow> httpRequest \<Rightarrow> (string + httpResponse) \<times> 's"
  token :: string

text \<open>
  \<^verbatim>\<open>json.NewDecoder(resp.Body).Decode(out)\<close> is a parameter, one decoder for each type
  the package decodes into: it returns the text of the decoding error or the decoded
  value. \<open>errorPayload\<close> is the anonymous struct \<^verbatim>\<open>payload\<close> of \<^verbatim>\<open>get\<close>; a JSON object
  with no \<^verbatim>\<open>message\<close> member decodes to the empty \<^verbatim>\<open>Message\<close>.
\<close>

record errorPayload =
  payload_Status :: int
  payload_Message :: string

record jsonDecoder =
  decodeVaults :: "string \<Rightarrow> string + vaultSummary list"
  decodeItems :: "string \<Rightarrow> string + itemSummary list"
  decodeItem :: "string \<Rightarrow> string + fullItem"
  decodePayload :: "string \<Rightarrow> string + errorPayload"

definition newRequest ::
  "'s connectClient \<Rightarrow> string \<Rightarrow> (string \<times> string list) list \<Rightarrow> httpRequest" where
  "newRequest c path query =
     (let basePath = TrimSuffix (url_Path (baseURL c)) ''/'';
          relative = TrimPrefix path ''/''
      in \<lparr>req_Method = ''GET'',
          req_URL = (baseURL c)\<lparr>url_Path :=
            (if relative \<noteq> [] then basePath @ ''/'' @ relative else basePath)\<rparr>,
          req_Query = query,
          req_Header = [(''Authorization'', ''Bearer '' @ token c),
                        (''Accept'', ''application/json'')]\<rparr>)"

text \<open>
  \<^verbatim>\<open>get\<close>. The argument \<open>out\<close> is \<open>None\<close> for a \<^verbatim>\<open>nil\<close> \<^verbatim>\<open>out\<close> and otherwise the decoder
  of the type \<^verbatim>\<open>out\<close> points to; the result holds the decoded value.
\<close>

definition get ::
  "jsonDecoder \<Rightarrow> 's connectClient \<Rightarrow> string \<Rightarrow> (string \<times> string list) list \<Rightarrow>
   (string \<Rightarrow> string + 'a) option \<Rightarrow> 's \<Rightarrow> (error + 'a option) \<times> 's" where
  "get js c path query out s =
     (case httpClient c s (newRequest c path query) of
        (Inl err, s') \<Rightarrow> (Inl (TransportError err), s')
      | (Inr resp, s') \<Rightarrow>
          if 200 \<le> resp_StatusCode resp \<and> resp_StatusCode resp < 300 then
            (case out of
               None \<Rightarrow> (Inr None, s')
             | Some decode \<Rightarrow>
                 (case decode (resp_Body resp) of
                    Inl err \<Rightarrow> (Inl (JsonError err), s')
                  | Inr v \<Rightarrow> (Inr (Some v), s')))
          else
            (case decodePayload js (resp_Body resp) of
               Inr payload \<Rightarrow>
                 if payload_Message payload \<noteq> []
                 then (Inl (ApiError (resp_StatusCode resp) (payload_Message payload)), s')
                 else (Inl (ApiError (resp_StatusCode resp) (resp_Status resp)), s')
             | Inl err \<Rightarrow> (Inl (ApiError (resp_StatusCode resp) (resp_Status resp)), s')))"

text \<open>
  The three operations. A variable declared before the call (\<^verbatim>\<open>var vaults []vaultSummary\<close>)
  keeps its zero value when nothing is decoded into it.
\<close>

definition findVaultByName ::
  "jsonDecoder \<Rightarrow> 's connectClient \<Rightarrow> string \<Rightarrow> 's \<Rightarrow> (error + vaultSummary) \<times> 's" where
  "findVaultByName js c name s =
     (case get js c ''vaults'' [(''filter'', [buildEqualsFilter ''name'' name])]
             (Some (decodeVaults js)) s of
        (Inl err, s') \<Rightarrow> (Inl err, s')
      | (Inr out, s') \<Rightarrow>
          let vaults = (case out of None \<Rightarrow> [] | Some vs \<Rightarrow> vs)
          in if length vaults = 0 then (Inl (VaultNotFound name), s')
             else if length vaults > 1 then (Inl (MultipleVaults name), s')
             else (Inr (vaults ! 0), s'))"

definition findItemByTitle ::
  "jsonDecoder \<Rightarrow> 's connectClient \<Rightarrow> string \<Rightarrow> string \<Rightarrow> 's \<Rightarrow>
   (error + itemSummary) \<times> 's" where
  "findItemByTitle js c vaultID title s =
     (let path = ''vaults/'' @ escapePathSegment vaultID @ ''/items''
      in case get js c path [(''filter'', [buildEqualsFilter ''title'' title])]
                (Some (decodeItems js)) s of
           (Inl err, s') \<Rightarrow> (Inl err, s')
         | (Inr out, s') \<Rightarrow>
             let items = (case out of None \<Rightarrow> [] | Some is \<Rightarrow> is)
             in if length items = 0 then (Inl (ItemNotFound title vaultID), s')
                else if length items > 1 then (Inl (MultipleItems title vaultID), s')
                else (Inr (items ! 0), s'))"

definition getItem ::
  "jsonDecoder \<Rightarrow> 's connectClient \<Rightarrow> string \<Rightarrow> string \<Rightarrow> 's \<Rightarrow> (error + fullItem) \<times> 's" where
  "getItem js c vaultID itemID s =
     (let path = ''vaults/'' @ escapePathSegment vaultID @ ''/items/'' @ escapePathSegment itemID
      in case get js c path [] (Some (decodeItem js)) s of
           (Inl err, s') \<Rightarrow> (Inl err, s')
         | (Inr out, s') \<Rightarrow>
             (Inr (case out of None \<Rightarrow> mkItem [] [] [] [] | Some item \<Rightarrow> item), s'))"

section \<open>The plugin\<close>

text \<open>
  \<^verbatim>\<open>secret.Request\<close> with the two fields \<^verbatim>\<open>Find\<close> reads, and \<^verbatim>\<open>drone.Secret\<close> with the
  three it sets. The request pointer is an option: \<open>None\<close> is \<^verbatim>\<open>nil\<close>. The calls to the
  logger write a log and change no result; they are left out.
\<close>

record request =
  request_Name :: string
  request_Path :: string

record secret =
  secret_Name :: string
  secret_Data :: string
  secret_PullRequest :: bool

definition Find ::
  "jsonDecoder \<Rightarrow> 's connectClient \<Rightarrow> request option \<Rightarrow> 's \<Rightarrow> (error + secret) \<times> 's" where
  "Find js c req s =
     (case req of
        None \<Rightarrow> (Inl NilRequest, s)
      | Some r \<Rightarrow>
          if request_Name r = [] then (Inl EmptySecretName, s)
          else
            (case parseSecretPath (request_Path r) of
               Inl err \<Rightarrow> (Inl err, s)
             | Inr (vaultName, itemTitle, fieldSelector) \<Rightarrow>
                 (case findVaultByName js c vaultName s of
                    (Inl err, s1) \<Rightarrow> (Inl (LookupVault vaultName err), s1)
                  | (Inr vault, s1) \<Rightarrow>
                      (case findItemByTitle js c (vault_ID vault) itemTitle s1 of
                         (Inl err, s2) \<Rightarrow> (Inl (LookupItem itemTitle err), s2)
                       | (Inr itemSummary, s2) \<Rightarrow>
                           (case getItem js c (vault_ID vault) (summary_ID itemSummary) s2 of
                              (Inl err, s3) \<Rightarrow> (Inl (LoadItem itemTitle err), s3)
                            | (Inr item, s3) \<Rightarrow>
                                (case selectFieldValue item fieldSelector of
                                   Inl err \<Rightarrow> (Inl err, s3)
                                 | Inr v \<Rightarrow>
                                     (Inr \<lparr>secret_Name = request_Name r, secret_Data = v,
                                           secret_PullRequest = False\<rparr>, s3)))))))"

text \<open>
  The store of \<^verbatim>\<open>TestPluginFind\<close>, for the examples: a server that answers by the path
  of the request when the bearer token is \<^verbatim>\<open>token\<close>, and records the requests it
  receives; the state of the world is the list of these requests. \<open>testJson\<close> decodes
  the bodies this server sends, and the bodies used with \<open>respondWith\<close>, as
  \<^verbatim>\<open>encoding/json\<close> does.
\<close>

definition vaultsBody :: string where
  \<open>vaultsBody = ''[{"id":"vault-id","name":"Production Vault"}]''\<close>

definition itemsBody :: string where
  \<open>itemsBody = ''[{"id":"item-id","title":"Database Credentials"}]''\<close>

definition itemBody :: string where
  \<open>itemBody = ''{"title":"Database Credentials","fields":[{"label":"Password","value":"hunter2","purpose":"PASSWORD"}]}''\<close>

definition rateLimitedBody :: string where
  \<open>rateLimitedBody = ''{"message": "rate limited"}''\<close>

definition emptyMessageBody :: string where
  \<open>emptyMessageBody = ''{"message": ""}''\<close>

definition twoVaultsBody :: string where
  \<open>twoVaultsBody = ''[{"id":"v1","name":"Production Vault"},{"id":"v2","name":"Production Vault"}]''\<close>

definition testJson :: jsonDecoder where
  "testJson =
     \<lparr>decodeVaults = (\<lambda>b.
        if b = vaultsBody then Inr [\<lparr>vault_ID = ''vault-id'', vault_Name = ''Production Vault''\<rparr>]
        else if b = twoVaultsBody
          then Inr [\<lparr>vault_ID = ''v1'', vault_Name = ''Production Vault''\<rparr>,
                    \<lparr>vault_ID = ''v2'', vault_Name = ''Production Vault''\<rparr>]
        else if b = ''[]'' then Inr []
        else Inl ''invalid character''),
      decodeItems = (\<lambda>b.
        if b = itemsBody
          then Inr [\<lparr>summary_ID = ''item-id'', summary_Title = ''Database Credentials''\<rparr>]
        else if b = ''[]'' then Inr []
        else Inl ''invalid character''),
      decodeItem = (\<lambda>b.
        if b = itemBody
          then Inr (mkItem ''Database Credentials''
                 [mkField ''Password'' ''hunter2'' ''PASSWORD'' None] [] [])
        else Inl ''invalid character''),
      decodePayload = (\<lambda>b.
        if b = rateLimitedBody
          then Inr \<lparr>payload_Status = 0, payload_Message = ''rate limited''\<rparr>
        else if b = emptyMessageBody then Inr \<lparr>payload_Status = 0, payload_Message = []\<rparr>
        else Inl ''invalid character'')\<rparr>"

definition testServer ::
  "httpRequest list \<Rightarrow> httpRequest \<Rightarrow> (string + httpResponse) \<times> httpRequest list" where
  "testServer received r =
     (Inr
        (if map_of (req_Header r) ''Authorization'' \<noteq> Some ''Bearer token''
           then \<lparr>resp_StatusCode = 401, resp_Status = ''401 Unauthorized'', resp_Body = []\<rparr>
         else if url_Path (req_URL r) = ''/v1/vaults''
           then \<lparr>resp_StatusCode = 200, resp_Status = ''200 OK'', resp_Body = vaultsBody\<rparr>
         else if url_Path (req_URL r) = ''/v1/vaults/vault-id/items''
           then \<lparr>resp_StatusCode = 200, resp_Status = ''200 OK'', resp_Body = itemsBody\<rparr>
         else if url_Path (req_URL r) = ''/v1/vaults/vault-id/items/item-id''
           then \<lparr>resp_StatusCode = 200, resp_Status = ''200 OK'', resp_Body = itemBody\<rparr>
         else \<lparr>resp_StatusCode = 404, resp_Status = ''404 Not Found'', resp_Body = []\<rparr>),
      received @ [r])"

definition respondWith ::
  "httpResponse \<Rightarrow> httpRequest list \<Rightarrow> httpRequest \<Rightarrow>
   (string + httpResponse) \<times> httpRequest list" where
  "respondWith resp received r = (Inr resp, received @ [r])"

definition clientOf ::
  "(httpRequest list \<Rightarrow> httpRequest \<Rightarrow> (string + httpResponse) \<times> httpRequest list) \<Rightarrow>
   httpRequest list connectClient" where
  "clientOf server =
     \<lparr>baseURL = \<lparr>url_Scheme = ''http'', url_Host = ''127.0.0.1'', url_Path = ''/v1''\<rparr>,
      httpClient = server, token = ''token''\<rparr>"

section \<open>Facts about the string functions\<close>

lemma Index_absent: "sep \<notin> set s \<Longrightarrow> Index s sep = None"
  by (induction s) auto

lemma Index_first: "sep \<notin> set a \<Longrightarrow> Index (a @ sep # r) sep = Some (length a)"
  by (induction a) auto

lemma SplitN_sep:
  "sep \<notin> set a \<Longrightarrow> SplitN (a @ sep # r) sep (Suc (Suc n)) = a # SplitN r sep (Suc n)"
  by (simp add: Index_first)

lemma SplitN_length: "length (SplitN s sep n) \<le> n"
proof (induction s sep n rule: SplitN.induct)
  case (3 s sep n)
  then show ?case by (cases "Index s sep") auto
qed simp_all

lemma split_at_first:
  "sep \<in> set s \<Longrightarrow>
   s = takeWhile (\<lambda>c. c \<noteq> sep) s @ sep # tl (dropWhile (\<lambda>c. c \<noteq> sep) s)"
  by (induction s) auto




lemma segments_split:
  assumes "CHR ''/'' \<in> set p"
  shows "p = firstSegment p @ CHR ''/'' # afterSlash p" and "CHR ''/'' \<notin> set (firstSegment p)"
proof -
  show "p = firstSegment p @ CHR ''/'' # afterSlash p"
    unfolding firstSegment_def afterSlash_def using assms by (rule split_at_first)
  show "CHR ''/'' \<notin> set (firstSegment p)"
    unfolding firstSegment_def by (auto dest: set_takeWhileD)
qed

lemma firstSegment_no_slash: "CHR ''/'' \<notin> set p \<Longrightarrow> firstSegment p = p"
  by (auto simp add: firstSegment_def)

lemma SplitN_2:
  "SplitN q CHR ''/'' 2 =
     (if CHR ''/'' \<in> set q then [firstSegment q, afterSlash q] else [q])"
proof (cases "CHR ''/'' \<in> set q")
  case True
  from segments_split [OF True] have "SplitN q CHR ''/'' (Suc (Suc 0)) =
      firstSegment q # SplitN (afterSlash q) CHR ''/'' (Suc 0)"
    using SplitN_sep [of "CHR ''/''" "firstSegment q" "afterSlash q" 0] by simp
  with True show ?thesis by (simp add: numeral_2_eq_2)
next
  case False
  then show ?thesis by (simp add: numeral_2_eq_2 Index_absent)
qed

lemma SplitN_3:
  "SplitN p CHR ''/'' 3 =
     (if CHR ''/'' \<in> set p then firstSegment p # SplitN (afterSlash p) CHR ''/'' 2 else [p])"
proof (cases "CHR ''/'' \<in> set p")
  case True
  from segments_split [OF True] have "SplitN p CHR ''/'' (Suc (Suc (Suc 0))) =
      firstSegment p # SplitN (afterSlash p) CHR ''/'' (Suc (Suc 0))"
    using SplitN_sep [of "CHR ''/''" "firstSegment p" "afterSlash p" "Suc 0"] by simp
  with True show ?thesis by (simp add: numeral_2_eq_2 numeral_3_eq_3)
next
  case False
  then show ?thesis by (simp add: numeral_3_eq_3 Index_absent)
qed

lemma parseSecretPath_eq:
  "parseSecretPath p =
     (if CHR ''/'' \<notin> set p then Inl PathFormat
      else if TrimSpace (firstSegment p) = [] \<or> TrimSpace (firstSegment (afterSlash p)) = []
        then Inl PathEmptyName
      else Inr (TrimSpace (firstSegment p), TrimSpace (firstSegment (afterSlash p)),
                if CHR ''/'' \<in> set (afterSlash p) then TrimSpace (afterSlash (afterSlash p))
                else []))"
  by (simp add: parseSecretPath_def SplitN_3 SplitN_2 Let_def firstSegment_no_slash)

section \<open>Facts about field selection\<close>

lemma labelMatches_filter:
  "labelMatches l fs acc =
     acc @ filter (\<lambda>f. EqualFold (field_Label f) l \<and> field_Value f \<noteq> []) fs"
  by (induction fs arbitrary: acc) auto

lemma passwordMatches_filter:
  "passwordMatches fs acc =
     acc @ map field_Value
       (filter (\<lambda>f. EqualFold (field_Purpose f) ''PASSWORD'' \<and> field_Value f \<noteq> []) fs)"
  by (induction fs arbitrary: acc) auto

lemma sectionIDsOf_set:
  "sectionIDsOf l ss ids =
     ids \<union> section_ID ` {s \<in> set ss. EqualFold (section_Label s) l}"
  by (induction ss arbitrary: ids) auto

lemma sectionMatches_filter:
  "sectionMatches ids l fs acc =
     acc @ filter (\<lambda>f. (case field_Section f of None \<Rightarrow> False | Some r \<Rightarrow> ref_ID r \<in> ids)
                        \<and> EqualFold (field_Label f) l \<and> field_Value f \<noteq> []) fs"
  by (induction fs arbitrary: acc) (auto split: option.splits)


lemma findFieldByLabel_eq:
  "findFieldByLabel item label =
     (let ms = filter (\<lambda>f. EqualFold (field_Label f) (TrimSpace label) \<and> field_Value f \<noteq> [])
                 (item_Fields item)
      in if ms = [] then Inl (FieldNotFound (TrimSpace label) (item_Title item))
         else if length ms = 1 then Inr (field_Value (hd ms))
         else Inl (FieldAmbiguous (TrimSpace label) (item_Title item)))"
  by (simp add: findFieldByLabel_def labelMatches_filter Let_def hd_conv_nth)

lemma defaultPassword_eq:
  "defaultPassword item =
     (let ms = filter (\<lambda>f. EqualFold (field_Purpose f) ''PASSWORD'' \<and> field_Value f \<noteq> [])
                 (item_Fields item)
      in if length ms = 1 then Inr (field_Value (hd ms))
         else if ms = [] then findFieldByLabel item ''password''
         else Inl (MultiplePasswordFields (item_Title item)))"
proof -
  have "map g xs ! 0 = g (hd xs)" if "length xs = 1" for g :: "itemField \<Rightarrow> string" and xs
    using that by (cases xs) simp_all
  then show ?thesis
    by (simp add: defaultPassword_def passwordMatches_filter Let_def)
qed

lemma findFieldInSection_eq:
  "findFieldInSection item sec lab =
     (let ids = section_ID ` {s \<in> set (item_Sections item). EqualFold (section_Label s) sec};
          ms = filter (\<lambda>f. (case field_Section f of None \<Rightarrow> False | Some r \<Rightarrow> ref_ID r \<in> ids)
                            \<and> EqualFold (field_Label f) lab \<and> field_Value f \<noteq> [])
                 (item_Fields item)
      in if ids = {} then Inl (SectionNotFound sec (item_Title item))
         else if ms = [] then Inl (FieldNotFoundInSection lab sec)
         else if length ms = 1 then Inr (field_Value (hd ms))
         else Inl (FieldDuplicated lab sec))"
  by (simp add: findFieldInSection_def sectionIDsOf_set sectionMatches_filter Let_def hd_conv_nth)










section \<open>The path parser: claims\<close>

text \<open>
  Claim C3. The path is split on \<open>/\<close> into at most 3 components. Whenever parsing
  succeeds the path has a \<open>/\<close>, the vault and the item are the trimmed first and second
  components, a path with no second \<open>/\<close> (\<open>vault/item\<close>) has the empty selector, and a
  path with a second \<open>/\<close> has as selector the whole trimmed remainder after it, which is
  not split again (it may contain \<open>/\<close>).
\<close>

theorem C3_selector_is_whole_remainder:
  "length (SplitN path CHR ''/'' 3) \<le> 3 \<and>
   (parseSecretPath path = Inr (vault, item, field) \<longrightarrow>
      CHR ''/'' \<in> set path \<and>
      vault = TrimSpace (firstSegment path) \<and>
      item = TrimSpace (firstSegment (afterSlash path)) \<and>
      (CHR ''/'' \<notin> set (afterSlash path) \<longrightarrow> field = []) \<and>
      (CHR ''/'' \<in> set (afterSlash path) \<longrightarrow>
         field = TrimSpace (afterSlash (afterSlash path))))"
proof (intro conjI impI)
  show "length (SplitN path CHR ''/'' 3) \<le> 3" by (rule SplitN_length)
next
  assume ok: "parseSecretPath path = Inr (vault, item, field)"
  then show slash: "CHR ''/'' \<in> set path"
    by (auto simp add: parseSecretPath_eq split: if_splits)
  from ok show "vault = TrimSpace (firstSegment path)"
    by (auto simp add: parseSecretPath_eq split: if_splits)
  from ok show "item = TrimSpace (firstSegment (afterSlash path))"
    by (auto simp add: parseSecretPath_eq split: if_splits)
  {
    assume "CHR ''/'' \<notin> set (afterSlash path)"
    with ok show "field = []"
      by (auto simp add: parseSecretPath_eq split: if_splits)
  }
  {
    assume "CHR ''/'' \<in> set (afterSlash path)"
    with ok show "field = TrimSpace (afterSlash (afterSlash path))"
      by (auto simp add: parseSecretPath_eq split: if_splits)
  }
qed

theorem C3_selector_is_whole_remainder_witness:
  "parseSecretPath '' Vault / Item / Sec / Field '' = Inr (''Vault'', ''Item'', ''Sec / Field'') \<and>
   CHR ''/'' \<in> set (afterSlash '' Vault / Item / Sec / Field '') \<and>
   ''Sec / Field'' = TrimSpace (afterSlash (afterSlash '' Vault / Item / Sec / Field '')) \<and>
   parseSecretPath ''Vault/Item'' = Inr (''Vault'', ''Item'', []) \<and>
   CHR ''/'' \<notin> set (afterSlash ''Vault/Item'')"
proof -
  have p3: "parseSecretPath '' Vault / Item / Sec / Field '' = Inr (''Vault'', ''Item'', ''Sec / Field'')"
    by code_simp
  have p2: "parseSecretPath ''Vault/Item'' = Inr (''Vault'', ''Item'', [])"
    by code_simp
  have s3: "CHR ''/'' \<in> set (afterSlash '' Vault / Item / Sec / Field '')"
    using C3_selector_is_whole_remainder
      [of "'' Vault / Item / Sec / Field ''" "''Vault''" "''Item''" "''Sec / Field''"] p3
    by (simp add: afterSlash_def)
  have s2: "CHR ''/'' \<notin> set (afterSlash ''Vault/Item'')"
    by (simp add: afterSlash_def)
  from C3_selector_is_whole_remainder
      [of "'' Vault / Item / Sec / Field ''" "''Vault''" "''Item''" "''Sec / Field''"] p3 s3
  have "''Sec / Field'' = TrimSpace (afterSlash (afterSlash '' Vault / Item / Sec / Field ''))"
    by blast
  with p3 p2 s3 s2 show ?thesis by blast
qed

text \<open>
  Claim C4. Parsing fails if and only if the path has no \<open>/\<close> (fewer than 2 components)
  or its vault or item component is empty after trimming; the only errors are the two
  malformed-path errors; \<open>OnlyVault\<close> and \<open>Vault/ /Field\<close> fail.
\<close>

theorem C4_malformed_path_iff:
  "((\<exists>e. parseSecretPath path = Inl e) \<longleftrightarrow>
      CHR ''/'' \<notin> set path \<or>
      TrimSpace (firstSegment path) = [] \<or>
      TrimSpace (firstSegment (afterSlash path)) = []) \<and>
   (\<forall>e. parseSecretPath path = Inl e \<longrightarrow> e = PathFormat \<or> e = PathEmptyName) \<and>
   parseSecretPath ''OnlyVault'' = Inl PathFormat \<and>
   parseSecretPath ''Vault/ /Field'' = Inl PathEmptyName"
proof (intro conjI)
  show "(\<exists>e. parseSecretPath path = Inl e) \<longleftrightarrow>
      CHR ''/'' \<notin> set path \<or>
      TrimSpace (firstSegment path) = [] \<or>
      TrimSpace (firstSegment (afterSlash path)) = []"
    by (simp add: parseSecretPath_eq)
  show "\<forall>e. parseSecretPath path = Inl e \<longrightarrow> e = PathFormat \<or> e = PathEmptyName"
    by (auto simp add: parseSecretPath_eq split: if_splits)
  show "parseSecretPath ''OnlyVault'' = Inl PathFormat"
    by (simp add: parseSecretPath_eq)
  have "TrimSpace '' '' = []" by code_simp
  then show "parseSecretPath ''Vault/ /Field'' = Inl PathEmptyName"
    by (simp add: parseSecretPath_eq afterSlash_def firstSegment_def)
qed

theorem C4_malformed_path_iff_witness:
  "(\<exists>e. parseSecretPath '' /Item'' = Inl e) \<and>
   TrimSpace (firstSegment '' /Item'') = [] \<and>
   (\<exists>r. parseSecretPath ''Vault/Item'' = Inr r) \<and>
   CHR ''/'' \<in> set ''Vault/Item'' \<and>
   TrimSpace (firstSegment ''Vault/Item'') \<noteq> [] \<and>
   TrimSpace (firstSegment (afterSlash ''Vault/Item'')) \<noteq> []"
proof -
  have e: "TrimSpace (firstSegment '' /Item'') = []" by code_simp
  with C4_malformed_path_iff [of "'' /Item''"]
  have "\<exists>e. parseSecretPath '' /Item'' = Inl e"
    by blast
  moreover have ok: "parseSecretPath ''Vault/Item'' = Inr (''Vault'', ''Item'', [])"
    by code_simp
  moreover from ok C4_malformed_path_iff [of "''Vault/Item''"]
  have "CHR ''/'' \<in> set ''Vault/Item'' \<and>
   TrimSpace (firstSegment ''Vault/Item'') \<noteq> [] \<and>
   TrimSpace (firstSegment (afterSlash ''Vault/Item'')) \<noteq> []"
    by simp
  ultimately show ?thesis using e by blast
qed

lemma findFieldByLabel_candidates:
  "findFieldByLabel item label =
     (if labelCandidates item (TrimSpace label) = []
        then Inl (FieldNotFound (TrimSpace label) (item_Title item))
      else if length (labelCandidates item (TrimSpace label)) = 1
        then Inr (field_Value (hd (labelCandidates item (TrimSpace label))))
      else Inl (FieldAmbiguous (TrimSpace label) (item_Title item)))"
  by (simp add: findFieldByLabel_eq labelCandidates_def Let_def)

lemma defaultPassword_candidates:
  "defaultPassword item =
     (if length (passwordCandidates item) = 1
        then Inr (field_Value (hd (passwordCandidates item)))
      else if passwordCandidates item = [] then findFieldByLabel item ''password''
      else Inl (MultiplePasswordFields (item_Title item)))"
  by (simp add: defaultPassword_eq passwordCandidates_def Let_def)

lemma findFieldInSection_candidates:
  "findFieldInSection item sec lab =
     (if sectionIdSet item sec = {} then Inl (SectionNotFound sec (item_Title item))
      else if sectionCandidates item sec lab = [] then Inl (FieldNotFoundInSection lab sec)
      else if length (sectionCandidates item sec lab) = 1
        then Inr (field_Value (hd (sectionCandidates item sec lab)))
      else Inl (FieldDuplicated lab sec))"
  by (simp add: findFieldInSection_eq sectionCandidates_def sectionIdSet_def inSections_def Let_def)


lemma candidate_value:
  assumes "length (filter P xs) = 1" and "\<And>f. P f \<Longrightarrow> field_Value f \<noteq> []"
  shows "field_Value (hd (filter P xs)) \<noteq> []"
proof -
  from assms(1) have "filter P xs \<noteq> []" by auto
  then have "hd (filter P xs) \<in> set (filter P xs)" by (rule hd_in_set)
  then have "P (hd (filter P xs))" by simp
  then show ?thesis by (rule assms(2))
qed

lemma findFieldByLabel_nonempty:
  assumes "findFieldByLabel item label = Inr v"
  shows "v \<noteq> []"
proof -
  from assms have one: "length (labelCandidates item (TrimSpace label)) = 1"
    and v: "v = field_Value (hd (labelCandidates item (TrimSpace label)))"
    by (auto simp add: findFieldByLabel_candidates split: if_splits)
  from one show ?thesis
    unfolding v labelCandidates_def by (rule candidate_value) simp
qed

lemma defaultPassword_nonempty:
  assumes "defaultPassword item = Inr v"
  shows "v \<noteq> []"
proof (cases "length (passwordCandidates item) = 1")
  case True
  with assms have v: "v = field_Value (hd (passwordCandidates item))"
    by (simp add: defaultPassword_candidates)
  from True show ?thesis
    unfolding v passwordCandidates_def by (rule candidate_value) simp
next
  case False
  with assms have "findFieldByLabel item ''password'' = Inr v"
    by (auto simp add: defaultPassword_candidates split: if_splits)
  then show ?thesis by (rule findFieldByLabel_nonempty)
qed

lemma findFieldInSection_nonempty:
  assumes "findFieldInSection item sec lab = Inr v"
  shows "v \<noteq> []"
proof -
  from assms have one: "length (sectionCandidates item sec lab) = 1"
    and v: "v = field_Value (hd (sectionCandidates item sec lab))"
    by (auto simp add: findFieldInSection_candidates split: if_splits)
  from one show ?thesis
    unfolding v sectionCandidates_def by (rule candidate_value) simp
qed

section \<open>Field selection: claims\<close>

text \<open>
  Claim C7. Whenever field selection succeeds, for any item and any selector, the value
  it returns is a non-empty string: the three lookups skip the fields with an empty
  value, and the notes selector fails on empty notes.
\<close>

theorem C7_selected_value_nonempty:
  "selectFieldValue item selector = Inr v \<Longrightarrow> v \<noteq> []"
proof -
  assume ok: "selectFieldValue item selector = Inr v"
  consider (c_default) "selector = []"
    | (c_notes) "selector \<noteq> []" "EqualFold selector ''notes'' \<or> EqualFold selector ''notesPlain''"
    | (c_section) "selector \<noteq> []" "\<not> (EqualFold selector ''notes'' \<or> EqualFold selector ''notesPlain'')"
        "fst (splitQualifiedLabel selector) \<noteq> []"
    | (c_label) "selector \<noteq> []" "\<not> (EqualFold selector ''notes'' \<or> EqualFold selector ''notesPlain'')"
        "fst (splitQualifiedLabel selector) = []"
    by blast
  then show "v \<noteq> []"
  proof cases
    case c_default
    with ok have "defaultPassword item = Inr v" by (simp add: selectFieldValue_def)
    then show ?thesis by (rule defaultPassword_nonempty)
  next
    case c_notes
    with ok show ?thesis by (auto simp add: selectFieldValue_def split: if_splits)
  next
    case c_section
    with ok have "findFieldInSection item (fst (splitQualifiedLabel selector))
        (snd (splitQualifiedLabel selector)) = Inr v"
      by (simp add: selectFieldValue_def split_beta)
    then show ?thesis by (rule findFieldInSection_nonempty)
  next
    case c_label
    with ok have "findFieldByLabel item (snd (splitQualifiedLabel selector)) = Inr v"
      by (simp add: selectFieldValue_def split_beta)
    then show ?thesis by (rule findFieldByLabel_nonempty)
  qed
qed

theorem C7_selected_value_nonempty_witness:
  "selectFieldValue testItem ''Service Keys / Token'' = Inr ''abc123'' \<and> ''abc123'' \<noteq> [] \<and>
   selectFieldValue testItem [] = Inr ''hunter2'' \<and> ''hunter2'' \<noteq> [] \<and>
   (\<exists>e. selectFieldValue twoSections ''Service Keys/Empty'' = Inl e)"
proof -
  have a: "selectFieldValue testItem ''Service Keys / Token'' = Inr ''abc123''"
    by code_simp
  have b: "selectFieldValue testItem [] = Inr ''hunter2''"
    by code_simp
  have c: "selectFieldValue twoSections ''Service Keys/Empty'' =
      Inl (FieldNotFoundInSection ''Empty'' ''Service Keys'')"
    by code_simp
  from a have "''abc123'' \<noteq> []" by (rule C7_selected_value_nonempty)
  moreover from b have "''hunter2'' \<noteq> []" by (rule C7_selected_value_nonempty)
  ultimately show ?thesis using a b c by simp
qed







section \<open>Facts about escaping\<close>

lemma hexdigit: "k < 16 \<Longrightarrow> unhex (upperhex ! k) = Some k"
proof -
  assume "k < 16"
  then consider "k = 0" | "k = 1" | "k = 2" | "k = 3" | "k = 4" | "k = 5" | "k = 6" | "k = 7"
    | "k = 8" | "k = 9" | "k = 10" | "k = 11" | "k = 12" | "k = 13" | "k = 14" | "k = 15"
    by atomize_elim presburger
  then show ?thesis
    by cases (simp_all add: upperhex_def unhex_def)
qed

lemma escapeByte_unescape:
  "PathUnescape (escapeByte c @ r) = map_option ((#) c) (PathUnescape r)"
proof (cases "shouldEscape c")
  case True
  have hi: "(of_char c :: nat) div 16 < 16"
    by (rule less_mult_imp_div_less) (use nat_of_char_less_256 [of c] in simp)
  have lo: "(of_char c :: nat) mod 16 < 16" by simp
  have "char_of ((of_char c :: nat) div 16 * 16 + of_char c mod 16) = c"
    by simp
  with True hi lo show ?thesis
    by (simp add: escapeByte_def hexdigit)
next
  case False
  then have "c \<noteq> CHR ''%''" by (auto simp add: shouldEscape_def)
  with False show ?thesis by (simp add: escapeByte_def)
qed

lemma PathUnescape_PathEscape: "PathUnescape (PathEscape s) = Some s"
  by (induction s) (simp_all add: PathEscape_def escapeByte_unescape)

lemma hexdigit_not_plus: "k < 16 \<Longrightarrow> upperhex ! k \<noteq> CHR ''+''"
proof -
  assume "k < 16"
  then consider "k = 0" | "k = 1" | "k = 2" | "k = 3" | "k = 4" | "k = 5" | "k = 6" | "k = 7"
    | "k = 8" | "k = 9" | "k = 10" | "k = 11" | "k = 12" | "k = 13" | "k = 14" | "k = 15"
    by atomize_elim presburger
  then show ?thesis
    by cases (simp_all add: upperhex_def)
qed

lemma escapeByte_no_plus: "c \<noteq> CHR ''+'' \<Longrightarrow> CHR ''+'' \<notin> set (escapeByte c)"
proof -
  assume c: "c \<noteq> CHR ''+''"
  have "(of_char c :: nat) div 16 < 16"
    by (rule less_mult_imp_div_less) (use nat_of_char_less_256 [of c] in simp)
  moreover have "(of_char c :: nat) mod 16 < 16" by simp
  ultimately show ?thesis
    using c by (simp add: escapeByte_def hexdigit_not_plus [THEN not_sym])
qed

lemma Replace_absent: "old \<notin> set s \<Longrightarrow> Replace s old new = s"
  by (induction s) (auto simp add: Replace_def)

lemma PathEscape_no_plus:
  "CHR ''+'' \<notin> set segment \<Longrightarrow> CHR ''+'' \<notin> set (PathEscape segment)"
proof (induction segment)
  case Nil
  then show ?case by (simp add: PathEscape_def)
next
  case (Cons c r)
  then have "c \<noteq> CHR ''+''" by auto
  then have "CHR ''+'' \<notin> set (escapeByte c)" by (rule escapeByte_no_plus)
  with Cons show ?case by (simp add: PathEscape_def)
qed

lemma escapePathSegment_roundtrip:
  assumes "CHR ''+'' \<notin> set segment"
  shows "PathUnescape (escapePathSegment segment) = Some segment"
proof -
  from assms have "CHR ''+'' \<notin> set (PathEscape segment)"
    by (rule PathEscape_no_plus)
  then have "escapePathSegment segment = PathEscape segment"
    by (simp add: escapePathSegment_def Replace_absent)
  then show ?thesis by (simp add: PathUnescape_PathEscape)
qed

lemma Replace_Cons: "Replace (c # s) old new = (if c = old then new else [c]) @ Replace s old new"
  by (simp add: Replace_def)

lemma Replace_Nil: "Replace [] old new = []"
  by (simp add: Replace_def)

lemma Replace_append: "Replace (a @ b) old new = Replace a old new @ Replace b old new"
  by (simp add: Replace_def)

lemma escapeFilterValue_Cons:
  "escapeFilterValue (c # v) = escapeFilterByte c @ escapeFilterValue v"
  by (simp add: escapeFilterValue_def escapeFilterByte_def Replace_Cons Replace_Nil Replace_append Let_def)

lemma escapeFilterValue_Nil: "escapeFilterValue [] = []"
  by (simp add: escapeFilterValue_def Replace_def)

lemma unescape_escapeFilterByte:
  "unescapeFilterValue (escapeFilterByte c @ escapeFilterValue r) =
     c # unescapeFilterValue (escapeFilterValue r)"
proof (cases r)
  case Nil
  then show ?thesis by (simp add: escapeFilterByte_def escapeFilterValue_Nil)
next
  case (Cons d r')
  have "escapeFilterByte d \<noteq> []" by (simp add: escapeFilterByte_def)
  then obtain x xs where "escapeFilterByte d = x # xs" by (cases "escapeFilterByte d") auto
  with Cons show ?thesis
    by (simp add: escapeFilterValue_Cons) (simp add: escapeFilterByte_def)
qed

lemma escapeFilterValue_roundtrip: "unescapeFilterValue (escapeFilterValue v) = v"
  by (induction v) (simp_all add: escapeFilterValue_Nil escapeFilterValue_Cons unescape_escapeFilterByte)

lemma escapeFilterValue_inj:
  assumes "escapeFilterValue v = escapeFilterValue w"
  shows "v = w"
proof -
  from assms have "unescapeFilterValue (escapeFilterValue v) = unescapeFilterValue (escapeFilterValue w)"
    by simp
  then show ?thesis by (simp only: escapeFilterValue_roundtrip)
qed

section \<open>The Connect client: claims\<close>

text \<open>
  Claim C5. When the store answers the filtered list query with a success status and a
  body that decodes to a list of matches, \<^verbatim>\<open>findVaultByName\<close> and \<^verbatim>\<open>findItemByTitle\<close>
  return the single match exactly when the list has exactly one element; the empty list
  gives the not-found error that names the vault (the item and the vault id), and a
  list of more than one gives the multiple-matches error.
\<close>

theorem C5_exactly_one_match:
  "(httpClient c s (newRequest c ''vaults'' [(''filter'', [buildEqualsFilter ''name'' name])])
       = (Inr resp, s') \<and>
    200 \<le> resp_StatusCode resp \<and> resp_StatusCode resp < 300 \<and>
    decodeVaults js (resp_Body resp) = Inr vaults \<longrightarrow>
      (vaults = [] \<longrightarrow> findVaultByName js c name s = (Inl (VaultNotFound name), s')) \<and>
      (length vaults = 1 \<longrightarrow> findVaultByName js c name s = (Inr (hd vaults), s')) \<and>
      (1 < length vaults \<longrightarrow> findVaultByName js c name s = (Inl (MultipleVaults name), s')) \<and>
      ((\<exists>v. fst (findVaultByName js c name s) = Inr v) \<longleftrightarrow> length vaults = 1)) \<and>
   (httpClient c s
       (newRequest c (''vaults/'' @ escapePathSegment vaultID @ ''/items'')
          [(''filter'', [buildEqualsFilter ''title'' title])])
       = (Inr resp, s') \<and>
    200 \<le> resp_StatusCode resp \<and> resp_StatusCode resp < 300 \<and>
    decodeItems js (resp_Body resp) = Inr items \<longrightarrow>
      (items = [] \<longrightarrow>
         findItemByTitle js c vaultID title s = (Inl (ItemNotFound title vaultID), s')) \<and>
      (length items = 1 \<longrightarrow> findItemByTitle js c vaultID title s = (Inr (hd items), s')) \<and>
      (1 < length items \<longrightarrow>
         findItemByTitle js c vaultID title s = (Inl (MultipleItems title vaultID), s')) \<and>
      ((\<exists>v. fst (findItemByTitle js c vaultID title s) = Inr v) \<longleftrightarrow> length items = 1))"
proof (intro conjI impI)
  assume h: "httpClient c s (newRequest c ''vaults'' [(''filter'', [buildEqualsFilter ''name'' name])])
       = (Inr resp, s') \<and>
    200 \<le> resp_StatusCode resp \<and> resp_StatusCode resp < 300 \<and>
    decodeVaults js (resp_Body resp) = Inr vaults"
  then have g: "get js c ''vaults'' [(''filter'', [buildEqualsFilter ''name'' name])]
      (Some (decodeVaults js)) s = (Inr (Some vaults), s')"
    by (simp add: get_def)
  have r: "findVaultByName js c name s =
      (if length vaults = 0 then Inl (VaultNotFound name)
       else if 1 < length vaults then Inl (MultipleVaults name)
       else Inr (vaults ! 0), s')"
    by (simp add: findVaultByName_def g)
  show "findVaultByName js c name s = (Inl (VaultNotFound name), s')" if "vaults = []"
    using that by (simp add: r)
  show "findVaultByName js c name s = (Inr (hd vaults), s')" if "length vaults = 1"
    using that by (cases vaults) (simp_all add: r)
  show "findVaultByName js c name s = (Inl (MultipleVaults name), s')" if "1 < length vaults"
    using that by (auto simp add: r)
  show "(\<exists>v. fst (findVaultByName js c name s) = Inr v) \<longleftrightarrow> length vaults = 1"
    by (cases vaults) (auto simp add: r)
next
  assume h: "httpClient c s
       (newRequest c (''vaults/'' @ escapePathSegment vaultID @ ''/items'')
          [(''filter'', [buildEqualsFilter ''title'' title])])
       = (Inr resp, s') \<and>
    200 \<le> resp_StatusCode resp \<and> resp_StatusCode resp < 300 \<and>
    decodeItems js (resp_Body resp) = Inr items"
  then have g: "get js c (''vaults/'' @ escapePathSegment vaultID @ ''/items'')
      [(''filter'', [buildEqualsFilter ''title'' title])]
      (Some (decodeItems js)) s = (Inr (Some items), s')"
    by (simp add: get_def)
  have r: "findItemByTitle js c vaultID title s =
      (if length items = 0 then Inl (ItemNotFound title vaultID)
       else if 1 < length items then Inl (MultipleItems title vaultID)
       else Inr (items ! 0), s')"
    using g by (simp add: findItemByTitle_def Let_def)
  show "findItemByTitle js c vaultID title s = (Inl (ItemNotFound title vaultID), s')"
    if "items = []"
    using that by (simp add: r)
  show "findItemByTitle js c vaultID title s = (Inr (hd items), s')" if "length items = 1"
    using that by (cases items) (simp_all add: r)
  show "findItemByTitle js c vaultID title s = (Inl (MultipleItems title vaultID), s')"
    if "1 < length items"
    using that by (auto simp add: r)
  show "(\<exists>v. fst (findItemByTitle js c vaultID title s) = Inr v) \<longleftrightarrow> length items = 1"
    by (cases items) (auto simp add: r)
qed

theorem C5_exactly_one_match_witness:
  "findVaultByName testJson (clientOf testServer) ''Production Vault'' [] =
     (Inr \<lparr>vault_ID = ''vault-id'', vault_Name = ''Production Vault''\<rparr>,
      [newRequest (clientOf testServer) ''vaults''
         [(''filter'', [buildEqualsFilter ''name'' ''Production Vault''])]]) \<and>
   fst (findVaultByName testJson
     (clientOf (respondWith
        \<lparr>resp_StatusCode = 200, resp_Status = ''200 OK'', resp_Body = twoVaultsBody\<rparr>))
     ''Production Vault'' []) = Inl (MultipleVaults ''Production Vault'') \<and>
   fst (findItemByTitle testJson
     (clientOf (respondWith
        \<lparr>resp_StatusCode = 200, resp_Status = ''200 OK'', resp_Body = ''[]''\<rparr>))
     ''vault-id'' ''Other'' []) = Inl (ItemNotFound ''Other'' ''vault-id'')"
proof -
  have a: "httpClient (clientOf testServer) []
      (newRequest (clientOf testServer) ''vaults''
         [(''filter'', [buildEqualsFilter ''name'' ''Production Vault''])]) =
      (Inr \<lparr>resp_StatusCode = 200, resp_Status = ''200 OK'', resp_Body = vaultsBody\<rparr>,
       [newRequest (clientOf testServer) ''vaults''
         [(''filter'', [buildEqualsFilter ''name'' ''Production Vault''])]])"
    by code_simp
  have a': "decodeVaults testJson vaultsBody =
      Inr [\<lparr>vault_ID = ''vault-id'', vault_Name = ''Production Vault''\<rparr>]"
    by code_simp
  from a a' C5_exactly_one_match [of "clientOf testServer" "[]" "''Production Vault''"
      "\<lparr>resp_StatusCode = 200, resp_Status = ''200 OK'', resp_Body = vaultsBody\<rparr>" _ testJson]
  have r1: "findVaultByName testJson (clientOf testServer) ''Production Vault'' [] =
     (Inr \<lparr>vault_ID = ''vault-id'', vault_Name = ''Production Vault''\<rparr>,
      [newRequest (clientOf testServer) ''vaults''
         [(''filter'', [buildEqualsFilter ''name'' ''Production Vault''])]])"
    by simp
  have b: "httpClient (clientOf (respondWith resp)) [] req = (Inr resp, [req])" for resp req
    by (simp add: clientOf_def respondWith_def)
  have b': "decodeVaults testJson twoVaultsBody =
      Inr [\<lparr>vault_ID = ''v1'', vault_Name = ''Production Vault''\<rparr>,
           \<lparr>vault_ID = ''v2'', vault_Name = ''Production Vault''\<rparr>]"
    by code_simp
  from b b' C5_exactly_one_match
    [of "clientOf (respondWith
          \<lparr>resp_StatusCode = 200, resp_Status = ''200 OK'', resp_Body = twoVaultsBody\<rparr>)"
      "[]" "''Production Vault''"
      "\<lparr>resp_StatusCode = 200, resp_Status = ''200 OK'', resp_Body = twoVaultsBody\<rparr>"
      _ testJson]
  have r2: "fst (findVaultByName testJson
     (clientOf (respondWith
        \<lparr>resp_StatusCode = 200, resp_Status = ''200 OK'', resp_Body = twoVaultsBody\<rparr>))
     ''Production Vault'' []) = Inl (MultipleVaults ''Production Vault'')"
    by simp
  have e': "decodeItems testJson ''[]'' = Inr []"
    by code_simp
  from b e' C5_exactly_one_match
    [where c = "clientOf (respondWith
          \<lparr>resp_StatusCode = 200, resp_Status = ''200 OK'', resp_Body = ''[]''\<rparr>)"
      and s = "[]" and vaultID = "''vault-id''" and title = "''Other''"
      and resp = "\<lparr>resp_StatusCode = 200, resp_Status = ''200 OK'', resp_Body = ''[]''\<rparr>"
      and js = testJson]
  have r3: "fst (findItemByTitle testJson
     (clientOf (respondWith
        \<lparr>resp_StatusCode = 200, resp_Status = ''200 OK'', resp_Body = ''[]''\<rparr>))
     ''vault-id'' ''Other'' []) = Inl (ItemNotFound ''Other'' ''vault-id'')"
    by simp
  from r1 r2 r3 show ?thesis by blast
qed

text \<open>
  Claim C6, as amended. For every response with a status outside 200..299, \<^verbatim>\<open>get\<close>
  returns the API error with that status code; its message is the \<^verbatim>\<open>message\<close> of the
  JSON error payload when the body decodes and that message is not empty, and the
  status line otherwise (a body that does not decode, or a payload whose message is
  missing or empty). A response with a status in 200..299 never gives an API error.
\<close>

theorem C6_api_error:
  "httpClient c s (newRequest c path query) = (Inr resp, s') \<longrightarrow>
     (\<not> (200 \<le> resp_StatusCode resp \<and> resp_StatusCode resp < 300) \<longrightarrow>
        get js c path query out s =
          (Inl (ApiError (resp_StatusCode resp)
             (case decodePayload js (resp_Body resp) of
                Inr payload \<Rightarrow>
                  if payload_Message payload \<noteq> [] then payload_Message payload
                  else resp_Status resp
              | Inl err \<Rightarrow> resp_Status resp)), s')) \<and>
     (200 \<le> resp_StatusCode resp \<and> resp_StatusCode resp < 300 \<longrightarrow>
        (\<forall>n m. fst (get js c path query out s) \<noteq> Inl (ApiError n m)))"
proof (intro impI conjI allI)
  assume h: "httpClient c s (newRequest c path query) = (Inr resp, s')"
  {
    assume "\<not> (200 \<le> resp_StatusCode resp \<and> resp_StatusCode resp < 300)"
    with h show "get js c path query out s =
          (Inl (ApiError (resp_StatusCode resp)
             (case decodePayload js (resp_Body resp) of
                Inr payload \<Rightarrow>
                  if payload_Message payload \<noteq> [] then payload_Message payload
                  else resp_Status resp
              | Inl err \<Rightarrow> resp_Status resp)), s')"
      by (cases "decodePayload js (resp_Body resp)") (auto simp add: get_def)
  }
  {
    fix n m
    assume "200 \<le> resp_StatusCode resp \<and> resp_StatusCode resp < 300"
    with h show "fst (get js c path query out s) \<noteq> Inl (ApiError n m)"
      by (simp add: get_def split: option.splits sum.splits)
  }
qed

theorem C6_api_error_witness:
  "fst (get testJson
     (clientOf (respondWith
        \<lparr>resp_StatusCode = 429, resp_Status = ''429 Too Many Requests'',
         resp_Body = rateLimitedBody\<rparr>))
     ''vaults'' [] (Some (decodeVaults testJson)) []) = Inl (ApiError 429 ''rate limited'') \<and>
   fst (get testJson
     (clientOf (respondWith
        \<lparr>resp_StatusCode = 503, resp_Status = ''503 Service Unavailable'',
         resp_Body = ''<html>''\<rparr>))
     ''vaults'' [] (Some (decodeVaults testJson)) []) =
       Inl (ApiError 503 ''503 Service Unavailable'') \<and>
   fst (get testJson
     (clientOf (respondWith
        \<lparr>resp_StatusCode = 200, resp_Status = ''200 OK'', resp_Body = ''<html>''\<rparr>))
     ''vaults'' [] (Some (decodeVaults testJson)) []) \<noteq> Inl (ApiError 200 ''200 OK'')"
proof -
  have b: "httpClient (clientOf (respondWith resp)) [] req = (Inr resp, [req])" for resp req
    by (simp add: clientOf_def respondWith_def)
  have p1: "decodePayload testJson rateLimitedBody =
      Inr \<lparr>payload_Status = 0, payload_Message = ''rate limited''\<rparr>"
    by code_simp
  have p2: "decodePayload testJson ''<html>'' = Inl ''invalid character''"
    by code_simp
  from p1 C6_api_error [of
      "clientOf (respondWith \<lparr>resp_StatusCode = 429, resp_Status = ''429 Too Many Requests'',
         resp_Body = rateLimitedBody\<rparr>)" "[]" "''vaults''" "[]"
      "\<lparr>resp_StatusCode = 429, resp_Status = ''429 Too Many Requests'',
         resp_Body = rateLimitedBody\<rparr>" _ testJson "Some (decodeVaults testJson)"]
  have r1: "fst (get testJson
     (clientOf (respondWith
        \<lparr>resp_StatusCode = 429, resp_Status = ''429 Too Many Requests'',
         resp_Body = rateLimitedBody\<rparr>))
     ''vaults'' [] (Some (decodeVaults testJson)) []) = Inl (ApiError 429 ''rate limited'')"
    by (simp add: b)
  from p2 C6_api_error [of
      "clientOf (respondWith \<lparr>resp_StatusCode = 503, resp_Status = ''503 Service Unavailable'',
         resp_Body = ''<html>''\<rparr>)" "[]" "''vaults''" "[]"
      "\<lparr>resp_StatusCode = 503, resp_Status = ''503 Service Unavailable'',
         resp_Body = ''<html>''\<rparr>" _ testJson "Some (decodeVaults testJson)"]
  have r2: "fst (get testJson
     (clientOf (respondWith
        \<lparr>resp_StatusCode = 503, resp_Status = ''503 Service Unavailable'',
         resp_Body = ''<html>''\<rparr>))
     ''vaults'' [] (Some (decodeVaults testJson)) []) =
       Inl (ApiError 503 ''503 Service Unavailable'')"
    by (simp add: b)
  from C6_api_error [of
      "clientOf (respondWith \<lparr>resp_StatusCode = 200, resp_Status = ''200 OK'',
         resp_Body = ''<html>''\<rparr>)" "[]" "''vaults''" "[]"
      "\<lparr>resp_StatusCode = 200, resp_Status = ''200 OK'', resp_Body = ''<html>''\<rparr>"
      _ testJson "Some (decodeVaults testJson)"]
  have r3: "fst (get testJson
     (clientOf (respondWith
        \<lparr>resp_StatusCode = 200, resp_Status = ''200 OK'', resp_Body = ''<html>''\<rparr>))
     ''vaults'' [] (Some (decodeVaults testJson)) []) \<noteq> Inl (ApiError 200 ''200 OK'')"
    by (simp add: b)
  from r1 r2 r3 show ?thesis by blast
qed

text \<open>
  Claim C6 as it is stated fails where a JSON error payload is present and its
  \<^verbatim>\<open>message\<close> is the empty string: for status 500 with the body
  \<^verbatim>\<open>{"message": ""}\<close> the message of the API error is the status line, not the
  (empty) message of the payload.
\<close>

theorem C6_empty_message_counterexample:
  "decodePayload testJson emptyMessageBody =
     Inr \<lparr>payload_Status = 0, payload_Message = []\<rparr> \<and>
   fst (get testJson
     (clientOf (respondWith
        \<lparr>resp_StatusCode = 500, resp_Status = ''500 Internal Server Error'',
         resp_Body = emptyMessageBody\<rparr>))
     ''vaults'' [] (Some (decodeVaults testJson)) []) =
       Inl (ApiError 500 ''500 Internal Server Error'') \<and>
   fst (get testJson
     (clientOf (respondWith
        \<lparr>resp_StatusCode = 500, resp_Status = ''500 Internal Server Error'',
         resp_Body = emptyMessageBody\<rparr>))
     ''vaults'' [] (Some (decodeVaults testJson)) []) \<noteq> Inl (ApiError 500 [])"
  by code_simp

text \<open>
  Claim C8. Escaping a filter value loses nothing: \<open>escapeFilterValue_roundtrip\<close> and
  \<open>escapeFilterValue_inj\<close> above. Escaping a path identifier does: \<^verbatim>\<open>url.PathEscape\<close>
  keeps \<^verbatim>\<open>+\<close> and writes a space as \<^verbatim>\<open>%20\<close>, and \<^verbatim>\<open>escapePathSegment\<close> then
  replaces every \<^verbatim>\<open>+\<close> by \<^verbatim>\<open>%20\<close>. The identifiers \<^verbatim>\<open>a+b\<close> and \<^verbatim>\<open>a b\<close> get the same
  escaped segment, which decodes to \<^verbatim>\<open>a b\<close>. (An identifier without \<^verbatim>\<open>+\<close> does decode
  back to itself: \<open>escapePathSegment_roundtrip\<close>.)
\<close>

theorem C8_path_segment_plus:
  "escapePathSegment ''a+b'' = ''a%20b'' \<and>
   escapePathSegment ''a b'' = ''a%20b'' \<and>
   PathUnescape (escapePathSegment ''a+b'') = Some ''a b''"
  by code_simp

section \<open>The plugin: claims\<close>

lemma Find_named:
  assumes "request_Name r \<noteq> []"
  shows "Find js c (Some r) s =
     (case parseSecretPath (request_Path r) of
        Inl err \<Rightarrow> (Inl err, s)
      | Inr (vaultName, itemTitle, fieldSelector) \<Rightarrow>
          (case findVaultByName js c vaultName s of
             (Inl err, s1) \<Rightarrow> (Inl (LookupVault vaultName err), s1)
           | (Inr vault, s1) \<Rightarrow>
               (case findItemByTitle js c (vault_ID vault) itemTitle s1 of
                  (Inl err, s2) \<Rightarrow> (Inl (LookupItem itemTitle err), s2)
                | (Inr itemSummary, s2) \<Rightarrow>
                    (case getItem js c (vault_ID vault) (summary_ID itemSummary) s2 of
                       (Inl err, s3) \<Rightarrow> (Inl (LoadItem itemTitle err), s3)
                     | (Inr item, s3) \<Rightarrow>
                         (case selectFieldValue item fieldSelector of
                            Inl err \<Rightarrow> (Inl err, s3)
                          | Inr v \<Rightarrow>
                              (Inr \<lparr>secret_Name = request_Name r, secret_Data = v,
                                    secret_PullRequest = False\<rparr>, s3))))))"
  using assms by (simp add: Find_def)

text \<open>
  Claim C9. \<^verbatim>\<open>Find\<close> fails at once for a \<^verbatim>\<open>nil\<close> request and for an empty name, whatever
  the path is, and leaves the state of the world as it was: no request reaches the
  store. Whenever it succeeds, the secret carries the name of the request, and its data
  is the value that field selection returns for the parsed selector on the item that the
  three store calls fetched for the parsed vault name and item title. Two requests with
  non-empty names and the same path have the same outcome (the same data or the same
  error) and leave the same state.
\<close>

theorem C9_find_name_passthrough:
  "Find js c None s = (Inl NilRequest, s) \<and>
   (request_Name r = [] \<longrightarrow> Find js c (Some r) s = (Inl EmptySecretName, s)) \<and>
   (Find js c (Some r) s = (Inr sec, s') \<longrightarrow>
      secret_Name sec = request_Name r \<and>
      (\<exists>vaultName itemTitle fieldSelector vault s1 summary s2 item.
         parseSecretPath (request_Path r) = Inr (vaultName, itemTitle, fieldSelector) \<and>
         findVaultByName js c vaultName s = (Inr vault, s1) \<and>
         findItemByTitle js c (vault_ID vault) itemTitle s1 = (Inr summary, s2) \<and>
         getItem js c (vault_ID vault) (summary_ID summary) s2 = (Inr item, s') \<and>
         selectFieldValue item fieldSelector = Inr (secret_Data sec))) \<and>
   (request_Name r \<noteq> [] \<and> request_Name r' \<noteq> [] \<and> request_Path r = request_Path r' \<longrightarrow>
      map_sum id secret_Data (fst (Find js c (Some r) s)) =
        map_sum id secret_Data (fst (Find js c (Some r') s)) \<and>
      snd (Find js c (Some r) s) = snd (Find js c (Some r') s))"
proof (intro conjI impI)
  show "Find js c None s = (Inl NilRequest, s)"
    by (simp add: Find_def)
next
  assume "request_Name r = []"
  then show "Find js c (Some r) s = (Inl EmptySecretName, s)"
    by (simp add: Find_def)
next
  assume ok: "Find js c (Some r) s = (Inr sec, s')"
  then have named: "request_Name r \<noteq> []"
    by (auto simp add: Find_def)
  from ok show "secret_Name sec = request_Name r"
    unfolding Find_named [OF named]
    by (auto split: sum.splits prod.splits)
  from ok show "\<exists>vaultName itemTitle fieldSelector vault s1 summary s2 item.
         parseSecretPath (request_Path r) = Inr (vaultName, itemTitle, fieldSelector) \<and>
         findVaultByName js c vaultName s = (Inr vault, s1) \<and>
         findItemByTitle js c (vault_ID vault) itemTitle s1 = (Inr summary, s2) \<and>
         getItem js c (vault_ID vault) (summary_ID summary) s2 = (Inr item, s') \<and>
         selectFieldValue item fieldSelector = Inr (secret_Data sec)"
    unfolding Find_named [OF named]
    by (auto split: sum.splits prod.splits)
next
  assume h: "request_Name r \<noteq> [] \<and> request_Name r' \<noteq> [] \<and> request_Path r = request_Path r'"
  then have n: "request_Name r \<noteq> []" and n': "request_Name r' \<noteq> []"
    and p: "request_Path r = request_Path r'"
    by simp_all
  show "map_sum id secret_Data (fst (Find js c (Some r) s)) =
        map_sum id secret_Data (fst (Find js c (Some r') s))"
    unfolding Find_named [OF n] Find_named [OF n'] p
    by (auto split: sum.splits prod.splits)
  show "snd (Find js c (Some r) s) = snd (Find js c (Some r') s)"
    unfolding Find_named [OF n] Find_named [OF n'] p
    by (auto split: sum.splits prod.splits)
qed

theorem C9_find_name_passthrough_witness:
  "Find testJson (clientOf testServer) None [] = (Inl NilRequest, []) \<and>
   Find testJson (clientOf testServer)
     (Some \<lparr>request_Name = [], request_Path = ''Production Vault/Database Credentials''\<rparr>) [] =
       (Inl EmptySecretName, []) \<and>
   fst (Find testJson (clientOf testServer)
     (Some \<lparr>request_Name = ''db_password'',
            request_Path = ''Production Vault/Database Credentials''\<rparr>) []) =
       Inr \<lparr>secret_Name = ''db_password'', secret_Data = ''hunter2'',
            secret_PullRequest = False\<rparr> \<and>
   map_sum id secret_Data (fst (Find testJson (clientOf testServer)
     (Some \<lparr>request_Name = ''other'',
            request_Path = ''Production Vault/Database Credentials''\<rparr>) [])) =
       Inr ''hunter2''"
proof -
  let ?r = "\<lparr>request_Name = ''db_password'',
            request_Path = ''Production Vault/Database Credentials''\<rparr>"
  let ?r' = "\<lparr>request_Name = ''other'',
            request_Path = ''Production Vault/Database Credentials''\<rparr>"
  let ?e = "\<lparr>request_Name = [],
            request_Path = ''Production Vault/Database Credentials''\<rparr>"
  note c9 = C9_find_name_passthrough [of testJson "clientOf testServer" "[]"]
  from c9 have nil: "Find testJson (clientOf testServer) None [] = (Inl NilRequest, [])"
    by blast
  from c9 [of ?e] have empty:
    "Find testJson (clientOf testServer) (Some ?e) [] = (Inl EmptySecretName, [])"
    by simp
  have found: "fst (Find testJson (clientOf testServer) (Some ?r) []) =
      Inr \<lparr>secret_Name = ''db_password'', secret_Data = ''hunter2'',
           secret_PullRequest = False\<rparr>"
    by code_simp
  from c9 [of ?r _ _ ?r']
  have "map_sum id secret_Data (fst (Find testJson (clientOf testServer) (Some ?r) [])) =
      map_sum id secret_Data (fst (Find testJson (clientOf testServer) (Some ?r') []))"
    by simp
  with found
  have other: "map_sum id secret_Data (fst (Find testJson (clientOf testServer) (Some ?r') [])) =
      Inr ''hunter2''"
    by simp
  from nil empty found other show ?thesis by blast
qed

end
